theory Spec2Isabelle
  imports Main "HOL-Library.Word"
begin

section \<open>The Redis list-length external scaler (main.go)\<close>

text \<open>
  The service keeps one \<open>RedisScaler\<close> per scaled object in the map
  \<open>RedisExternalScalerServer.scalers\<close> and answers five RPCs: \<open>New\<close>, \<open>Close\<close>,
  \<open>IsActive\<close>, \<open>GetMetricSpec\<close> and \<open>GetMetrics\<close>. The two copies of the program
  (with and without TLS) differ only in \<open>main\<close> and in logging; the handlers are the same
  text, and they are modelled once.

  Handlers are state-passing functions: they take the server and the request and return the
  Go result pair \<open>(response, error)\<close> as a sum (\<open>Inl\<close> the error) together with the server
  afterwards. Calls to the logger are left out. The \<open>ctx\<close> argument is left out too: no
  handler reads it, and \<open>getRedisListLength\<close> receives it without using it.
\<close>

subsection \<open>Integers\<close>

text \<open>
  The Makefile builds for \<open>GOARCH=amd64\<close>, where Go's \<open>int\<close> has 64 bits, as \<open>int64\<close> has.
\<close>

type_synonym go_int = "64 word"
type_synonym int64 = "64 word"

subsection \<open>Errors\<close>

text \<open>
  The program builds its errors with \<open>fmt.Errorf\<close>; there is one constructor per place an
  error comes from:
  \<^item> \<open>ListLengthParsingError\<close>: "List length parsing error ..." of \<open>parseRedisMetadata\<close>;
  \<^item> \<open>NoListNameGiven\<close>: "no list name given" of \<open>parseRedisMetadata\<close>;
  \<^item> \<open>CannotFindScaler name\<close>: "Cannot find scaler name" of the three query handlers;
  \<^item> \<open>RedisError msg\<close>: the error carried by the Redis client's reply;
  \<^item> \<open>NilPointerDereference\<close> and \<open>NilMapAssignment\<close>: the two run-time panics the
    handlers' text can raise (reading a field through a nil pointer, storing into a nil map).
\<close>

datatype error =
    ListLengthParsingError
  | NoListNameGiven
  | CannotFindScaler string
  | RedisError string
  | NilPointerDereference
  | NilMapAssignment

text \<open>The error taxonomy of the specification, as a classification of these errors.\<close>

datatype error_kind = ConfigurationError | NotRegistered | StoreQueryError | RuntimePanic

fun kind_of :: "error \<Rightarrow> error_kind" where
  "kind_of ListLengthParsingError = ConfigurationError"
| "kind_of NoListNameGiven = ConfigurationError"
| "kind_of (CannotFindScaler name) = NotRegistered"
| "kind_of (RedisError msg) = StoreQueryError"
| "kind_of NilPointerDereference = RuntimePanic"
| "kind_of NilMapAssignment = RuntimePanic"

subsection \<open>Messages of the RPC contract\<close>

text \<open>
  Modelled from the spec: the message types of the package \<open>externalscaler\<close> (generated
  code that main.go imports as \<open>pb\<close>). Their fields are the ones of the wire-level shapes
  of the specification, which are also the ones main.go reads and writes. The fields of
  \<open>NewRequest\<close>, \<open>GetMetricsRequest\<close> and \<open>MetricValue\<close> carry a prefix, because a field
  name is a constant here and \<open>ScaledObjectRef\<close> and \<open>MetricName\<close> occur in several
  messages.

  A handler receives a decoded request, so its \<open>request\<close> pointer is not nil. The
  \<open>ScaledObjectRef\<close> field inside \<open>NewRequest\<close> and \<open>GetMetricsRequest\<close> is a pointer of
  its own (main.go passes it to \<open>getScalerUniqueName\<close>, which takes a pointer); it is
  \<open>None\<close> when nil.
\<close>

record ScaledObjectRef =
  Namespace :: string
  Name :: string

record NewRequest =
  new_ScaledObjectRef :: "ScaledObjectRef option"
  new_Metadata :: "string \<rightharpoonup> string"

record GetMetricsRequest =
  get_ScaledObjectRef :: "ScaledObjectRef option"
  get_MetricName :: string

datatype Empty = Empty

record IsActiveResponse =
  Result :: bool

record MetricSpec =
  MetricName :: string
  TargetSize :: int64

record GetMetricSpecResponse =
  MetricSpecs :: "MetricSpec list"

record MetricValue =
  value_MetricName :: string
  value_MetricValue :: int64

record GetMetricsResponse =
  MetricValues :: "MetricValue list"

subsection \<open>Constants\<close>

definition listLengthMetricName :: string where
  "listLengthMetricName = ''RedisListLength''"

definition defaultTargetListLength :: go_int where
  "defaultTargetListLength = 5"

definition defaultRedisAddress :: string where
  "defaultRedisAddress = ''redis-master.default.svc.cluster.local:6379''"

definition defaultRedisPassword :: string where
  "defaultRedisPassword = ''''"

subsection \<open>The server and its scalers\<close>

record RedisScaler =
  address :: string
  password :: string
  listName :: string
  listLength :: go_int

text \<open>
  \<open>scalers\<close> is a Go map, nil (\<open>None\<close>) in the server that \<open>main\<close> creates, until the
  first \<open>New\<close> allocates it. The map holds pointers to scalers; each is allocated by one call
  of \<open>parseRedisMetadata\<close>, stored once and never written again, so the map is modelled as
  holding the scalers themselves.
\<close>

record RedisExternalScalerServer =
  scalers :: "(string \<rightharpoonup> RedisScaler) option"

text \<open>
  \<open>s.scalers[name]\<close> with the comma-ok form. Reading a nil map finds nothing; it does not
  panic.
\<close>

definition scalers_lookup :: "RedisExternalScalerServer \<Rightarrow> string \<rightharpoonup> RedisScaler" where
  "scalers_lookup s name = (case scalers s of None \<Rightarrow> None | Some m \<Rightarrow> m name)"

text \<open>\<open>delete(s.scalers, name)\<close>. Deleting from a nil map does nothing.\<close>

definition scalers_delete ::
  "RedisExternalScalerServer \<Rightarrow> string \<Rightarrow> RedisExternalScalerServer" where
  "scalers_delete s name =
     (case scalers s of None \<Rightarrow> s | Some m \<Rightarrow> s\<lparr>scalers := Some (m(name := None))\<rparr>)"

definition getScalerUniqueName :: "ScaledObjectRef \<Rightarrow> string" where
  "getScalerUniqueName scaledObjectRef = Namespace scaledObjectRef @ ''/'' @ Name scaledObjectRef"

subsection \<open>strconv.Atoi\<close>

text \<open>
  Go's \<open>strconv.Atoi\<close> for a 64-bit \<open>int\<close>: an optional sign \<open>+\<close> or \<open>-\<close>, then one or
  more decimal digits and nothing else, denoting a value from \<open>-2^63\<close> to \<open>2^63 - 1\<close>.
  Everything else is an error (\<open>None\<close>): the empty string, a sign alone, any other
  character, a value out of range.
\<close>

definition is_digit :: "char \<Rightarrow> bool" where
  "is_digit ch = (48 \<le> (of_char ch :: nat) \<and> (of_char ch :: nat) \<le> 57)"

fun digits_value :: "string \<Rightarrow> int \<Rightarrow> int option" where
  "digits_value [] n = Some n"
| "digits_value (ch # rest) n =
     (if is_digit ch then digits_value rest (n * 10 + (of_char ch - 48)) else None)"

definition Atoi :: "string \<Rightarrow> go_int option" where
  "Atoi s =
     (case s of
        [] \<Rightarrow> None
      | s0 # rest \<Rightarrow>
          (let digits = (if s0 = CHR ''-'' \<or> s0 = CHR ''+'' then rest else s) in
           if digits = [] then None
           else
             (case digits_value digits 0 of
                None \<Rightarrow> None
              | Some n \<Rightarrow>
                  (let v = (if s0 = CHR ''-'' then - n else n) in
                   if - (2 ^ 63) \<le> v \<and> v < 2 ^ 63 then Some (word_of_int v) else None))))"

subsection \<open>parseRedisMetadata\<close>

text \<open>
  The function fills a zero-valued \<open>RedisScaler\<close> field by field and returns at the first
  error: first the list length, then the list name, then address and password. Reading a
  key of \<open>metadata\<close> with the comma-ok form is the map applied to the key.
\<close>

definition parseRedisMetadata :: "(string \<rightharpoonup> string) \<Rightarrow> error + RedisScaler" where
  "parseRedisMetadata metadata =
     (let scaler = \<lparr>address = '''', password = '''', listName = '''', listLength = 0\<rparr>;
          scaler = scaler\<lparr>listLength := defaultTargetListLength\<rparr>
      in
        (case (case metadata ''listLength'' of
                 None \<Rightarrow> Inr scaler
               | Some val \<Rightarrow>
                   (case Atoi val of
                      None \<Rightarrow> Inl ListLengthParsingError
                    | Some n \<Rightarrow> Inr (scaler\<lparr>listLength := n\<rparr>))) of
           Inl err \<Rightarrow> Inl err
         | Inr scaler \<Rightarrow>
             (case metadata ''listName'' of
                None \<Rightarrow> Inl NoListNameGiven
              | Some val \<Rightarrow>
                  (let scaler = scaler\<lparr>listName := val\<rparr>;
                       scaler = scaler\<lparr>address := defaultRedisAddress\<rparr>;
                       scaler = (case metadata ''address'' of
                                   None \<Rightarrow> scaler
                                 | Some val \<Rightarrow>
                                     if val \<noteq> '''' then scaler\<lparr>address := val\<rparr> else scaler);
                       scaler = scaler\<lparr>password := defaultRedisPassword\<rparr>;
                       scaler = (case metadata ''password'' of
                                   None \<Rightarrow> scaler
                                 | Some val \<Rightarrow>
                                     if val \<noteq> '''' then scaler\<lparr>password := val\<rparr> else scaler)
                   in Inr scaler))))"

subsection \<open>The queue-length query\<close>

text \<open>
  The Redis server is outside the program. \<open>redis.NewClient\<close> with an address and a
  password followed by \<open>LLen\<close> of a key yields a command object holding a value and an
  error; the store is modelled as the function from the three strings to that object.
  \<open>Result\<close> of the command returns both of its fields.
\<close>

record IntCmd =
  cmd_val :: int64
  cmd_err :: "string option"

type_synonym redis = "string \<Rightarrow> string \<Rightarrow> string \<Rightarrow> IntCmd"

definition cmd_Err :: "IntCmd \<Rightarrow> error option" where
  "cmd_Err cmd = map_option RedisError (cmd_err cmd)"

definition cmd_Result :: "IntCmd \<Rightarrow> int64 \<times> error option" where
  "cmd_Result cmd = (cmd_val cmd, cmd_Err cmd)"

definition getRedisListLength ::
  "redis \<Rightarrow> string \<Rightarrow> string \<Rightarrow> string \<Rightarrow> int64 \<times> error option" where
  "getRedisListLength store addr pass key =
     (let cmd = store addr pass key in
      if cmd_Err cmd \<noteq> None then (- 1, cmd_Err cmd) else cmd_Result cmd)"

subsection \<open>The handlers\<close>

definition New ::
  "RedisExternalScalerServer \<Rightarrow> NewRequest \<Rightarrow> (error + Empty) \<times> RedisExternalScalerServer" where
  "New s request =
     (let s = (if scalers s = None then s\<lparr>scalers := Some Map.empty\<rparr> else s) in
      case new_ScaledObjectRef request of
        None \<Rightarrow> (Inl NilPointerDereference, s)
      | Some ref \<Rightarrow>
          (let name = getScalerUniqueName ref in
           case parseRedisMetadata (new_Metadata request) of
             Inl err \<Rightarrow> (Inl err, s)
           | Inr scaler \<Rightarrow>
               (case scalers s of
                  None \<Rightarrow> (Inl NilMapAssignment, s)
                | Some m \<Rightarrow> (Inr Empty, s\<lparr>scalers := Some (m(name \<mapsto> scaler))\<rparr>))))"

definition Close ::
  "RedisExternalScalerServer \<Rightarrow> ScaledObjectRef \<Rightarrow> (error + Empty) \<times> RedisExternalScalerServer" where
  "Close s request =
     (let name = getScalerUniqueName request;
          s = (if scalers_lookup s name \<noteq> None then scalers_delete s name else s)
      in (Inr Empty, s))"

definition IsActive ::
  "redis \<Rightarrow> RedisExternalScalerServer \<Rightarrow> ScaledObjectRef \<Rightarrow>
     (error + IsActiveResponse) \<times> RedisExternalScalerServer" where
  "IsActive store s request =
     (let name = getScalerUniqueName request in
      case scalers_lookup s name of
        Some scalerRef \<Rightarrow>
          (case getRedisListLength store
                  (address scalerRef) (password scalerRef) (listName scalerRef) of
             (result, Some err) \<Rightarrow> (Inl err, s)
           | (result, None) \<Rightarrow> (Inr \<lparr>Result = 0 <s result\<rparr>, s))
      | None \<Rightarrow> (Inl (CannotFindScaler name), s))"

definition GetMetricSpec ::
  "RedisExternalScalerServer \<Rightarrow> ScaledObjectRef \<Rightarrow>
     (error + GetMetricSpecResponse) \<times> RedisExternalScalerServer" where
  "GetMetricSpec s request =
     (let name = getScalerUniqueName request in
      case scalers_lookup s name of
        Some scalerRef \<Rightarrow>
          (let spec = \<lparr>MetricName = listLengthMetricName,
                       TargetSize = scast (listLength scalerRef)\<rparr>
           in (Inr \<lparr>MetricSpecs = [spec]\<rparr>, s))
      | None \<Rightarrow> (Inl (CannotFindScaler name), s))"

definition GetMetrics ::
  "redis \<Rightarrow> RedisExternalScalerServer \<Rightarrow> GetMetricsRequest \<Rightarrow>
     (error + GetMetricsResponse) \<times> RedisExternalScalerServer" where
  "GetMetrics store s request =
     (case get_ScaledObjectRef request of
        None \<Rightarrow> (Inl NilPointerDereference, s)
      | Some ref \<Rightarrow>
          (let name = getScalerUniqueName ref in
           case scalers_lookup s name of
             Some scalerRef \<Rightarrow>
               (case getRedisListLength store
                       (address scalerRef) (password scalerRef) (listName scalerRef) of
                  (listLen, Some err) \<Rightarrow> (Inl err, s)
                | (listLen, None) \<Rightarrow>
                    (let value = \<lparr>value_MetricName = listLengthMetricName,
                                  value_MetricValue = listLen\<rparr>
                     in (Inr \<lparr>MetricValues = [value]\<rparr>, s)))
           | None \<Rightarrow> (Inl (CannotFindScaler name), s)))"

subsection \<open>The scenario of the specification\<close>

text \<open>
  The running example: the scaled object \<open>default/worker\<close>, registered with the metadata
  \<open>listName = jobs\<close>, \<open>listLength = 10\<close>; the server that holds exactly this scaler; a
  store whose list has a given length, and a store whose reply carries an error.
\<close>

definition scenario_ref :: ScaledObjectRef where
  "scenario_ref = \<lparr>Namespace = ''default'', Name = ''worker''\<rparr>"

definition scenario_metadata :: "string \<rightharpoonup> string" where
  "scenario_metadata = [''listName'' \<mapsto> ''jobs'', ''listLength'' \<mapsto> ''10'']"

definition scenario_scaler :: RedisScaler where
  "scenario_scaler =
     \<lparr>address = ''redis-master.default.svc.cluster.local:6379'', password = '''',
      listName = ''jobs'', listLength = 10\<rparr>"

definition scenario_server :: RedisExternalScalerServer where
  "scenario_server = \<lparr>scalers = Some [''default/worker'' \<mapsto> scenario_scaler]\<rparr>"

definition store_with_length :: "int64 \<Rightarrow> redis" where
  "store_with_length n = (\<lambda>addr pass key. \<lparr>cmd_val = n, cmd_err = None\<rparr>)"

definition store_failing :: "string \<Rightarrow> redis" where
  "store_failing msg = (\<lambda>addr pass key. \<lparr>cmd_val = 0, cmd_err = Some msg\<rparr>)"

section \<open>Auxiliary facts\<close>

subsection \<open>What parseRedisMetadata returns\<close>

lemma parseRedisMetadata_fails_iff:
  "isl (parseRedisMetadata m) \<longleftrightarrow>
     (\<exists>v. m ''listLength'' = Some v \<and> Atoi v = None) \<or> m ''listName'' = None"
  by (auto simp: parseRedisMetadata_def Let_def split: option.splits sum.splits)

lemma parseRedisMetadata_error_kind:
  "parseRedisMetadata m = Inl e \<Longrightarrow> kind_of e = ConfigurationError"
  by (auto simp: parseRedisMetadata_def Let_def split: option.splits sum.splits if_splits)

lemma parseRedisMetadata_default_length:
  "m ''listName'' = Some ln \<Longrightarrow> m ''listLength'' = None \<Longrightarrow>
   \<exists>a p. parseRedisMetadata m =
     Inr \<lparr>address = a, password = p, listName = ln, listLength = defaultTargetListLength\<rparr>"
  by (simp add: parseRedisMetadata_def Let_def split: option.splits)

lemma parseRedisMetadata_given_length:
  "m ''listName'' = Some ln \<Longrightarrow> m ''listLength'' = Some v \<Longrightarrow> Atoi v = Some n \<Longrightarrow>
   \<exists>a p. parseRedisMetadata m = Inr \<lparr>address = a, password = p, listName = ln, listLength = n\<rparr>"
  by (simp add: parseRedisMetadata_def Let_def split: option.splits)

lemma parseRedisMetadata_address:
  "parseRedisMetadata m = Inr sc \<Longrightarrow>
   address sc = (case m ''address'' of
                   None \<Rightarrow> defaultRedisAddress
                 | Some a \<Rightarrow> if a \<noteq> '''' then a else defaultRedisAddress)"
  by (auto simp: parseRedisMetadata_def Let_def split: option.splits sum.splits)

lemma parseRedisMetadata_password:
  "parseRedisMetadata m = Inr sc \<Longrightarrow>
   password sc = (case m ''password'' of
                   None \<Rightarrow> defaultRedisPassword
                 | Some a \<Rightarrow> if a \<noteq> '''' then a else defaultRedisPassword)"
  by (auto simp: parseRedisMetadata_def Let_def split: option.splits sum.splits)

lemma getRedisListLength_cases:
  "getRedisListLength store a p k =
     (case cmd_err (store a p k) of
        None \<Rightarrow> (cmd_val (store a p k), None)
      | Some msg \<Rightarrow> (- 1, Some (RedisError msg)))"
  by (simp add: getRedisListLength_def cmd_Err_def cmd_Result_def Let_def split: option.splits)

lemma New_result:
  "new_ScaledObjectRef request = Some ref \<Longrightarrow>
   fst (New s request) =
     (case parseRedisMetadata (new_Metadata request) of Inl e \<Rightarrow> Inl e | Inr sc \<Rightarrow> Inr Empty)"
  by (auto simp: New_def Let_def split: option.splits sum.splits)

lemma New_lookup:
  "new_ScaledObjectRef request = Some ref \<Longrightarrow>
   scalers_lookup (snd (New s request)) =
     (case parseRedisMetadata (new_Metadata request) of
        Inl e \<Rightarrow> scalers_lookup s
      | Inr sc \<Rightarrow> (scalers_lookup s)(getScalerUniqueName ref \<mapsto> sc))"
proof (rule ext)
  fix k
  assume r: "new_ScaledObjectRef request = Some ref"
  show "scalers_lookup (snd (New s request)) k =
     (case parseRedisMetadata (new_Metadata request) of
        Inl e \<Rightarrow> scalers_lookup s
      | Inr sc \<Rightarrow> (scalers_lookup s)(getScalerUniqueName ref \<mapsto> sc)) k"
    by (cases "scalers s"; cases "parseRedisMetadata (new_Metadata request)")
      (simp_all add: New_def Let_def scalers_lookup_def r)
qed

subsection \<open>The scenario, evaluated\<close>

lemma Atoi_10: "Atoi ''10'' = Some 10"
  by (simp add: Atoi_def is_digit_def)

lemma Atoi_ten: "Atoi ''ten'' = None"
  by (simp add: Atoi_def is_digit_def)

lemma scenario_parse: "parseRedisMetadata scenario_metadata = Inr scenario_scaler"
  by (simp add: parseRedisMetadata_def scenario_metadata_def scenario_scaler_def Atoi_10
      defaultRedisAddress_def defaultRedisPassword_def defaultTargetListLength_def)

lemma scenario_register:
  "New \<lparr>scalers = None\<rparr> \<lparr>new_ScaledObjectRef = Some scenario_ref, new_Metadata = scenario_metadata\<rparr>
   = (Inr Empty, scenario_server)"
  by (simp add: New_def scenario_parse scenario_server_def scenario_ref_def getScalerUniqueName_def)

lemma scenario_lookup:
  "scalers_lookup scenario_server (getScalerUniqueName scenario_ref) = Some scenario_scaler"
  by (simp add: scalers_lookup_def scenario_server_def scenario_ref_def getScalerUniqueName_def)

section \<open>Properties\<close>

subsection \<open>The workload identity\<close>

text \<open>
  C8. For every namespace \<open>ns\<close> and name \<open>n\<close> the identity computed by
  \<open>getScalerUniqueName\<close> is exactly \<open>ns\<close>, a slash, \<open>n\<close>: nothing is trimmed, folded or
  escaped. The identity depends on these two strings only, so two references with equal
  namespace and equal name get equal identities.
\<close>

theorem getScalerUniqueName_exact:
  "getScalerUniqueName \<lparr>Namespace = ns, Name = n\<rparr> = ns @ ''/'' @ n
   \<and> (Namespace r = ns \<and> Name r = n \<longrightarrow> getScalerUniqueName r = ns @ ''/'' @ n)"
  by (simp add: getScalerUniqueName_def)

theorem getScalerUniqueName_exact_witness:
  "getScalerUniqueName \<lparr>Namespace = ''default'', Name = ''worker''\<rparr> = ''default/worker''
   \<and> getScalerUniqueName \<lparr>Namespace = ''Default'', Name = '' worker''\<rparr> = ''Default/ worker''"
proof -
  let ?r = "\<lparr>Namespace = ''Default'', Name = '' worker''\<rparr>"
  have h: "Namespace ?r = ''Default'' \<and> Name ?r = '' worker''"
    by simp
  have "getScalerUniqueName ?r = ''Default'' @ ''/'' @ '' worker''"
    using getScalerUniqueName_exact [of "''Default''" "'' worker''" ?r] h by blast
  moreover have "getScalerUniqueName \<lparr>Namespace = ''default'', Name = ''worker''\<rparr>
      = ''default'' @ ''/'' @ ''worker''"
    using getScalerUniqueName_exact [of "''default''" "''worker''" ?r] by blast
  ultimately show ?thesis by simp
qed

subsection \<open>Activity\<close>

text \<open>
  C1. Let the identity of the request be registered, with scaler \<open>scalerRef\<close>, and look
  at the queue-length query \<open>getRedisListLength\<close> for that scaler's address, password and
  list name. If the query returns 0 without error, \<open>IsActive\<close> answers \<open>false\<close>; if it
  returns a positive \<open>n\<close> (signed comparison on \<open>int64\<close>) without error, \<open>IsActive\<close>
  answers \<open>true\<close>; if it returns an error \<open>e\<close>, \<open>IsActive\<close> returns that same error and
  no response, and the error is a store query error. The server is the same afterwards in
  each case.
\<close>

theorem IsActive_active_iff_nonempty:
  assumes "scalers_lookup s (getScalerUniqueName request) = Some scalerRef"
  shows "(getRedisListLength store (address scalerRef) (password scalerRef) (listName scalerRef)
            = (0, None)
          \<longrightarrow> IsActive store s request = (Inr \<lparr>Result = False\<rparr>, s))
       \<and> (0 <s n \<and>
          getRedisListLength store (address scalerRef) (password scalerRef) (listName scalerRef)
            = (n, None)
          \<longrightarrow> IsActive store s request = (Inr \<lparr>Result = True\<rparr>, s))
       \<and> (getRedisListLength store (address scalerRef) (password scalerRef) (listName scalerRef)
            = (v, Some e)
          \<longrightarrow> IsActive store s request = (Inl e, s) \<and> kind_of e = StoreQueryError)"
  using assms
  by (auto simp: IsActive_def Let_def getRedisListLength_cases split: option.splits)

theorem IsActive_active_iff_nonempty_witness:
  "IsActive (store_with_length 0) scenario_server scenario_ref
     = (Inr \<lparr>Result = False\<rparr>, scenario_server)
   \<and> IsActive (store_with_length 3) scenario_server scenario_ref
     = (Inr \<lparr>Result = True\<rparr>, scenario_server)
   \<and> IsActive (store_failing ''connection refused'') scenario_server scenario_ref
     = (Inl (RedisError ''connection refused''), scenario_server)"
proof -
  let ?q = "\<lambda>store. getRedisListLength store
      (address scenario_scaler) (password scenario_scaler) (listName scenario_scaler)"
  have q0: "?q (store_with_length 0) = (0, None)"
    by (simp add: getRedisListLength_cases store_with_length_def)
  have q3: "(0::int64) <s 3 \<and> ?q (store_with_length 3) = (3, None)"
    by (simp add: getRedisListLength_cases store_with_length_def word_sless_alt)
  have qf: "?q (store_failing ''connection refused'')
      = (- 1, Some (RedisError ''connection refused''))"
    by (simp add: getRedisListLength_cases store_failing_def)
  show ?thesis
    using IsActive_active_iff_nonempty [OF scenario_lookup, where store = "store_with_length 0"]
      IsActive_active_iff_nonempty [OF scenario_lookup, where store = "store_with_length 3"
        and n = 3]
      IsActive_active_iff_nonempty [OF scenario_lookup,
        where store = "store_failing ''connection refused''" and v = "- 1"
        and e = "RedisError ''connection refused''"]
      q0 q3 qf
    by blast
qed

subsection \<open>Queries for an unregistered identity\<close>

text \<open>
  C2. If the server holds no scaler for the identity of \<open>ref\<close>, then \<open>IsActive\<close>,
  \<open>GetMetricSpec\<close> and \<open>GetMetrics\<close> each return the error "Cannot find scaler" for that
  identity, which is of the kind \<open>NotRegistered\<close>, whatever the store and the requested
  metric name are, and each returns the server as it was.
\<close>

theorem unregistered_query_fails:
  assumes "scalers_lookup s (getScalerUniqueName ref) = None"
  shows "IsActive store s ref = (Inl (CannotFindScaler (getScalerUniqueName ref)), s)
       \<and> GetMetricSpec s ref = (Inl (CannotFindScaler (getScalerUniqueName ref)), s)
       \<and> GetMetrics store s \<lparr>get_ScaledObjectRef = Some ref, get_MetricName = metricName\<rparr>
           = (Inl (CannotFindScaler (getScalerUniqueName ref)), s)
       \<and> kind_of (CannotFindScaler (getScalerUniqueName ref)) = NotRegistered"
  using assms by (simp add: IsActive_def GetMetricSpec_def GetMetrics_def Let_def)

theorem unregistered_query_fails_witness:
  "IsActive (store_with_length 3) scenario_server \<lparr>Namespace = ''default'', Name = ''Worker''\<rparr>
     = (Inl (CannotFindScaler ''default/Worker''), scenario_server)
   \<and> GetMetricSpec scenario_server \<lparr>Namespace = ''default'', Name = ''Worker''\<rparr>
     = (Inl (CannotFindScaler ''default/Worker''), scenario_server)
   \<and> GetMetrics (store_with_length 3) scenario_server
        \<lparr>get_ScaledObjectRef = Some \<lparr>Namespace = ''default'', Name = ''Worker''\<rparr>,
         get_MetricName = ''RedisListLength''\<rparr>
     = (Inl (CannotFindScaler ''default/Worker''), scenario_server)
   \<and> kind_of (CannotFindScaler ''default/Worker'') = NotRegistered"
proof -
  let ?ref = "\<lparr>Namespace = ''default'', Name = ''Worker''\<rparr>"
  have name: "getScalerUniqueName ?ref = ''default/Worker''"
    by (simp add: getScalerUniqueName_def)
  have h: "scalers_lookup scenario_server (getScalerUniqueName ?ref) = None"
    by (simp add: name scalers_lookup_def scenario_server_def)
  show ?thesis
    using unregistered_query_fails [OF h, of "store_with_length 3" "''RedisListLength''"]
    by (simp only: name)
qed

subsection \<open>Registration\<close>

text \<open>
  C3. For a request that carries a scaled-object reference, \<open>New\<close> returns a configuration
  error if and only if the metadata has the key \<open>listLength\<close> with a value that
  \<open>Atoi\<close> rejects, or lacks the key \<open>listName\<close>. Whenever \<open>New\<close> returns an error for
  such a request, the error is a configuration error and every identity has the same
  scaler, or none, as before the call. (On a server whose map is still nil, the failing call
  has allocated the empty map; no lookup can tell the two apart. What \<open>Atoi\<close> rejects
  includes a decimal numeral outside the 64-bit range.)
\<close>

theorem New_fails_iff:
  assumes "new_ScaledObjectRef request = Some ref"
  shows "((\<exists>e. fst (New s request) = Inl e \<and> kind_of e = ConfigurationError) \<longleftrightarrow>
            (\<exists>v. new_Metadata request ''listLength'' = Some v \<and> Atoi v = None)
            \<or> new_Metadata request ''listName'' = None)
       \<and> (isl (fst (New s request)) \<longrightarrow>
            (\<exists>e. fst (New s request) = Inl e \<and> kind_of e = ConfigurationError)
            \<and> scalers_lookup (snd (New s request)) = scalers_lookup s)"
proof -
  let ?p = "parseRedisMetadata (new_Metadata request)"
  have res: "fst (New s request) = (case ?p of Inl e \<Rightarrow> Inl e | Inr sc \<Rightarrow> Inr Empty)"
    by (rule New_result [OF assms])
  have look: "scalers_lookup (snd (New s request)) =
      (case ?p of Inl e \<Rightarrow> scalers_lookup s
       | Inr sc \<Rightarrow> (scalers_lookup s)(getScalerUniqueName ref \<mapsto> sc))"
    by (rule New_lookup [OF assms])
  show ?thesis
  proof (cases ?p)
    case (Inl e)
    then have "isl ?p" by simp
    then have "(\<exists>v. new_Metadata request ''listLength'' = Some v \<and> Atoi v = None)
            \<or> new_Metadata request ''listName'' = None"
      by (rule parseRedisMetadata_fails_iff [THEN iffD1])
    moreover have "kind_of e = ConfigurationError"
      using Inl by (rule parseRedisMetadata_error_kind)
    ultimately show ?thesis using Inl res look by simp
  next
    case (Inr sc)
    then have "\<not> isl ?p" by simp
    then have "\<not> ((\<exists>v. new_Metadata request ''listLength'' = Some v \<and> Atoi v = None)
            \<or> new_Metadata request ''listName'' = None)"
      by (simp add: parseRedisMetadata_fails_iff)
    then show ?thesis using Inr res by simp
  qed
qed

theorem New_fails_iff_witness:
  "fst (New scenario_server
          \<lparr>new_ScaledObjectRef = Some scenario_ref,
           new_Metadata = [''listName'' \<mapsto> ''jobs'', ''listLength'' \<mapsto> ''ten'']\<rparr>)
     = Inl ListLengthParsingError
   \<and> fst (New scenario_server
          \<lparr>new_ScaledObjectRef = Some scenario_ref, new_Metadata = [''listLength'' \<mapsto> ''10'']\<rparr>)
     = Inl NoListNameGiven
   \<and> scalers_lookup (snd (New scenario_server
          \<lparr>new_ScaledObjectRef = Some scenario_ref,
           new_Metadata = [''listName'' \<mapsto> ''jobs'', ''listLength'' \<mapsto> ''ten'']\<rparr>))
     = scalers_lookup scenario_server
   \<and> scalers_lookup (snd (New scenario_server
          \<lparr>new_ScaledObjectRef = Some scenario_ref, new_Metadata = [''listLength'' \<mapsto> ''10'']\<rparr>))
     = scalers_lookup scenario_server"
proof -
  let ?bad = "\<lparr>new_ScaledObjectRef = Some scenario_ref,
      new_Metadata = [''listName'' \<mapsto> ''jobs'', ''listLength'' \<mapsto> ''ten'']\<rparr>"
  let ?nameless = "\<lparr>new_ScaledObjectRef = Some scenario_ref,
      new_Metadata = [''listLength'' \<mapsto> ''10'']\<rparr>"
  have r1: "new_ScaledObjectRef ?bad = Some scenario_ref"
    and r2: "new_ScaledObjectRef ?nameless = Some scenario_ref"
    by simp_all
  have c1: "(\<exists>v. new_Metadata ?bad ''listLength'' = Some v \<and> Atoi v = None)
      \<or> new_Metadata ?bad ''listName'' = None"
    by (simp add: Atoi_ten)
  have c2: "(\<exists>v. new_Metadata ?nameless ''listLength'' = Some v \<and> Atoi v = None)
      \<or> new_Metadata ?nameless ''listName'' = None"
    by simp
  have f1: "fst (New scenario_server ?bad) = Inl ListLengthParsingError"
    by (simp add: New_def scenario_server_def parseRedisMetadata_def Atoi_ten)
  have f2: "fst (New scenario_server ?nameless) = Inl NoListNameGiven"
    by (simp add: New_def scenario_server_def parseRedisMetadata_def Atoi_10)
  have "isl (fst (New scenario_server ?bad))"
    using New_fails_iff [OF r1, of scenario_server] c1 by (metis isl_def)
  then have u1: "scalers_lookup (snd (New scenario_server ?bad)) = scalers_lookup scenario_server"
    using New_fails_iff [OF r1, of scenario_server] by blast
  have "isl (fst (New scenario_server ?nameless))"
    using New_fails_iff [OF r2, of scenario_server] c2 by (metis isl_def)
  then have u2: "scalers_lookup (snd (New scenario_server ?nameless))
      = scalers_lookup scenario_server"
    using New_fails_iff [OF r2, of scenario_server] by blast
  show ?thesis
    using f1 f2 u1 u2 by blast
qed

text \<open>
  C4. Let \<open>m1\<close> and \<open>m2\<close> be metadata that \<open>parseRedisMetadata\<close> accepts, and \<open>sc2\<close>
  the scaler parsed from \<open>m2\<close>. Registering the same reference with \<open>m1\<close> and then with
  \<open>m2\<close> succeeds both times, and afterwards the registry is the one before the two calls
  with the identity mapped to \<open>sc2\<close>: one entry for the identity, built from \<open>m2\<close>
  alone, and every other identity as it was.
\<close>

theorem New_twice_replaces:
  assumes "parseRedisMetadata m1 = Inr sc1" and "parseRedisMetadata m2 = Inr sc2"
  shows "fst (New s \<lparr>new_ScaledObjectRef = Some ref, new_Metadata = m1\<rparr>) = Inr Empty
       \<and> fst (New (snd (New s \<lparr>new_ScaledObjectRef = Some ref, new_Metadata = m1\<rparr>))
                 \<lparr>new_ScaledObjectRef = Some ref, new_Metadata = m2\<rparr>) = Inr Empty
       \<and> scalers_lookup
           (snd (New (snd (New s \<lparr>new_ScaledObjectRef = Some ref, new_Metadata = m1\<rparr>))
                     \<lparr>new_ScaledObjectRef = Some ref, new_Metadata = m2\<rparr>))
          = (scalers_lookup s)(getScalerUniqueName ref \<mapsto> sc2)"
  using assms by (simp add: New_result New_lookup)

theorem New_twice_replaces_witness:
  "scalers_lookup
     (snd (New (snd (New \<lparr>scalers = None\<rparr>
                  \<lparr>new_ScaledObjectRef = Some scenario_ref,
                   new_Metadata = [''listName'' \<mapsto> ''old'', ''address'' \<mapsto> ''redis:6379'',
                                   ''password'' \<mapsto> ''secret'']\<rparr>))
            \<lparr>new_ScaledObjectRef = Some scenario_ref, new_Metadata = scenario_metadata\<rparr>))
   = [''default/worker'' \<mapsto> scenario_scaler]"
proof -
  let ?m1 = "[''listName'' \<mapsto> ''old'', ''address'' \<mapsto> ''redis:6379'',
              ''password'' \<mapsto> ''secret'']"
  have p1: "parseRedisMetadata ?m1 =
      Inr \<lparr>address = ''redis:6379'', password = ''secret'', listName = ''old'', listLength = 5\<rparr>"
    by (simp add: parseRedisMetadata_def defaultTargetListLength_def)
  have name: "getScalerUniqueName scenario_ref = ''default/worker''"
    by (simp add: getScalerUniqueName_def scenario_ref_def)
  have nil: "scalers_lookup \<lparr>scalers = None\<rparr> = Map.empty"
    by (simp add: scalers_lookup_def fun_eq_iff)
  show ?thesis
    using New_twice_replaces [OF p1 scenario_parse, of "\<lparr>scalers = None\<rparr>" scenario_ref]
    by (simp add: name nil)
qed

text \<open>
  C5. If the metadata has the key \<open>listName\<close> and lacks the key \<open>listLength\<close>, then
  \<open>New\<close> (for a request that carries a scaled-object reference) succeeds, and the scaler
  it stores for the identity has the list length 5.
\<close>

theorem New_default_threshold:
  assumes "new_ScaledObjectRef request = Some ref"
    and "new_Metadata request ''listName'' = Some ln"
    and "new_Metadata request ''listLength'' = None"
  shows "fst (New s request) = Inr Empty
       \<and> (\<exists>sc. scalers_lookup (snd (New s request)) (getScalerUniqueName ref) = Some sc
               \<and> listLength sc = 5)"
proof -
  obtain a p where
    "parseRedisMetadata (new_Metadata request) =
       Inr \<lparr>address = a, password = p, listName = ln, listLength = defaultTargetListLength\<rparr>"
    using parseRedisMetadata_default_length [of "new_Metadata request" ln] assms(2,3) by blast
  then show ?thesis
    by (simp add: New_result [OF assms(1)] New_lookup [OF assms(1)] defaultTargetListLength_def)
qed

theorem New_default_threshold_witness:
  "fst (New \<lparr>scalers = None\<rparr>
          \<lparr>new_ScaledObjectRef = Some scenario_ref, new_Metadata = [''listName'' \<mapsto> ''jobs'']\<rparr>)
     = Inr Empty
   \<and> (\<exists>sc. scalers_lookup
              (snd (New \<lparr>scalers = None\<rparr>
                     \<lparr>new_ScaledObjectRef = Some scenario_ref,
                      new_Metadata = [''listName'' \<mapsto> ''jobs'']\<rparr>))
              ''default/worker'' = Some sc
          \<and> listLength sc = 5)"
proof -
  let ?req = "\<lparr>new_ScaledObjectRef = Some scenario_ref, new_Metadata = [''listName'' \<mapsto> ''jobs'']\<rparr>"
  have h1: "new_ScaledObjectRef ?req = Some scenario_ref"
    and h2: "new_Metadata ?req ''listName'' = Some ''jobs''"
    and h3: "new_Metadata ?req ''listLength'' = None"
    by simp_all
  have name: "getScalerUniqueName scenario_ref = ''default/worker''"
    by (simp add: getScalerUniqueName_def scenario_ref_def)
  show ?thesis
    using New_default_threshold [OF h1 h2 h3, of "\<lparr>scalers = None\<rparr>"]
    by (simp only: name)
qed

subsection \<open>The metric name\<close>

text \<open>
  C6. For a registered identity with scaler \<open>scalerRef\<close>, \<open>GetMetricSpec\<close> returns
  exactly one metric specification; its name is \<open>listLengthMetricName\<close> and its target size
  is the list length of \<open>scalerRef\<close>. Every response that \<open>GetMetrics\<close> returns for the
  same identity, with any store and any requested metric name, holds exactly one metric
  value, and its name is \<open>listLengthMetricName\<close> too.
\<close>

theorem metric_name_correlation:
  assumes "scalers_lookup s (getScalerUniqueName ref) = Some scalerRef"
  shows "GetMetricSpec s ref =
           (Inr \<lparr>MetricSpecs = [\<lparr>MetricName = listLengthMetricName,
                                  TargetSize = listLength scalerRef\<rparr>]\<rparr>, s)
       \<and> (fst (GetMetrics store s \<lparr>get_ScaledObjectRef = Some ref, get_MetricName = metricName\<rparr>)
             = Inr response
          \<longrightarrow> (\<exists>v. MetricValues response =
                      [\<lparr>value_MetricName = listLengthMetricName, value_MetricValue = v\<rparr>]))"
  using assms
  by (auto simp: GetMetricSpec_def GetMetrics_def Let_def split: option.splits prod.splits)

theorem metric_name_correlation_witness:
  "GetMetricSpec scenario_server scenario_ref
     = (Inr \<lparr>MetricSpecs = [\<lparr>MetricName = ''RedisListLength'', TargetSize = 10\<rparr>]\<rparr>,
        scenario_server)
   \<and> fst (GetMetrics (store_with_length 3) scenario_server
            \<lparr>get_ScaledObjectRef = Some scenario_ref, get_MetricName = ''anything''\<rparr>)
     = Inr \<lparr>MetricValues = [\<lparr>value_MetricName = ''RedisListLength'', value_MetricValue = 3\<rparr>]\<rparr>"
proof -
  let ?resp = "\<lparr>MetricValues = [\<lparr>value_MetricName = ''RedisListLength'', value_MetricValue = 3\<rparr>]\<rparr>"
  have g: "fst (GetMetrics (store_with_length 3) scenario_server
            \<lparr>get_ScaledObjectRef = Some scenario_ref, get_MetricName = ''anything''\<rparr>) = Inr ?resp"
    using scenario_lookup
    by (simp add: GetMetrics_def getRedisListLength_cases store_with_length_def
        listLengthMetricName_def)
  have "GetMetricSpec scenario_server scenario_ref
     = (Inr \<lparr>MetricSpecs = [\<lparr>MetricName = listLengthMetricName,
                             TargetSize = listLength scenario_scaler\<rparr>]\<rparr>, scenario_server)"
    using metric_name_correlation [OF scenario_lookup, of "store_with_length 3" "''anything''" ?resp] g
    by blast
  then show ?thesis
    using g by (simp add: listLengthMetricName_def scenario_scaler_def)
qed

subsection \<open>Deregistration\<close>

text \<open>
  C7. \<open>Close\<close> always returns the empty acknowledgement and no error. Afterwards the
  identity of the reference has no scaler and every other identity has the one it had. If the
  identity had no scaler before, the server is unchanged.
\<close>

theorem Close_removes_or_noop:
  "fst (Close s ref) = Inr Empty
   \<and> scalers_lookup (snd (Close s ref)) = (scalers_lookup s)(getScalerUniqueName ref := None)
   \<and> (scalers_lookup s (getScalerUniqueName ref) = None \<longrightarrow> snd (Close s ref) = s)"
  by (auto simp: Close_def Let_def scalers_lookup_def scalers_delete_def fun_eq_iff
      split: option.splits)

theorem Close_removes_or_noop_witness:
  "Close scenario_server \<lparr>Namespace = ''default'', Name = ''other''\<rparr> = (Inr Empty, scenario_server)
   \<and> fst (Close scenario_server scenario_ref) = Inr Empty
   \<and> scalers_lookup (snd (Close scenario_server scenario_ref)) = Map.empty"
proof -
  let ?other = "\<lparr>Namespace = ''default'', Name = ''other''\<rparr>"
  have h: "scalers_lookup scenario_server (getScalerUniqueName ?other) = None"
    by (simp add: scalers_lookup_def scenario_server_def getScalerUniqueName_def)
  have "fst (Close scenario_server ?other) = Inr Empty
      \<and> snd (Close scenario_server ?other) = scenario_server"
    using Close_removes_or_noop [of scenario_server ?other] h by blast
  then have a: "Close scenario_server ?other = (Inr Empty, scenario_server)"
    by (simp add: prod_eq_iff)
  have gone: "(scalers_lookup scenario_server)(getScalerUniqueName scenario_ref := None) = Map.empty"
    by (simp add: scalers_lookup_def scenario_server_def getScalerUniqueName_def scenario_ref_def
        fun_eq_iff)
  have "fst (Close scenario_server scenario_ref) = Inr Empty
      \<and> scalers_lookup (snd (Close scenario_server scenario_ref)) = Map.empty"
    using Close_removes_or_noop [of scenario_server scenario_ref] gone by simp
  then show ?thesis using a by simp
qed

subsection \<open>The metric name of a GetMetrics request\<close>

text \<open>
  C9. Two \<open>GetMetrics\<close> requests with the same scaled-object reference get the same result
  and leave the same server, for the same store and the same server before, whatever their
  \<open>MetricName\<close> fields are: the handler never reads the field.
\<close>

theorem GetMetrics_ignores_metricName:
  "GetMetrics store s \<lparr>get_ScaledObjectRef = r, get_MetricName = metricName1\<rparr>
   = GetMetrics store s \<lparr>get_ScaledObjectRef = r, get_MetricName = metricName2\<rparr>"
  by (simp add: GetMetrics_def)

subsection \<open>An empty list name\<close>

text \<open>
  C10, as amended. If the metadata maps the key \<open>listName\<close> to the empty string, and the
  key \<open>listLength\<close> is absent or has a value that \<open>Atoi\<close> accepts, then \<open>New\<close> (for a
  request that carries a scaled-object reference) succeeds and stores for the identity a
  scaler whose list name is the empty string. In the same scaler, an \<open>address\<close> or a
  \<open>password\<close> that the metadata maps to the empty string is replaced by its default.
\<close>

theorem New_empty_listName:
  assumes "new_ScaledObjectRef request = Some ref"
    and "new_Metadata request ''listName'' = Some ''''"
    and "new_Metadata request ''listLength'' = None
         \<or> (\<exists>v n. new_Metadata request ''listLength'' = Some v \<and> Atoi v = Some n)"
  shows "fst (New s request) = Inr Empty
       \<and> (\<exists>sc. scalers_lookup (snd (New s request)) (getScalerUniqueName ref) = Some sc
               \<and> listName sc = ''''
               \<and> (new_Metadata request ''address'' = Some '''' \<longrightarrow>
                    address sc = defaultRedisAddress)
               \<and> (new_Metadata request ''password'' = Some '''' \<longrightarrow>
                    password sc = defaultRedisPassword))"
proof -
  obtain a p n where
    ok: "parseRedisMetadata (new_Metadata request) =
       Inr \<lparr>address = a, password = p, listName = '''', listLength = n\<rparr>"
    using assms(2,3) parseRedisMetadata_default_length [of "new_Metadata request" "''''"]
      parseRedisMetadata_given_length [of "new_Metadata request" "''''"] by blast
  show ?thesis
    using parseRedisMetadata_address [OF ok] parseRedisMetadata_password [OF ok]
    by (simp add: New_result [OF assms(1)] New_lookup [OF assms(1)] ok)
qed

theorem New_empty_listName_witness:
  "fst (New \<lparr>scalers = None\<rparr>
          \<lparr>new_ScaledObjectRef = Some scenario_ref,
           new_Metadata = [''listName'' \<mapsto> '''', ''listLength'' \<mapsto> ''10'',
                           ''address'' \<mapsto> '''', ''password'' \<mapsto> '''']\<rparr>)
     = Inr Empty
   \<and> (\<exists>sc. scalers_lookup
              (snd (New \<lparr>scalers = None\<rparr>
                     \<lparr>new_ScaledObjectRef = Some scenario_ref,
                      new_Metadata = [''listName'' \<mapsto> '''', ''listLength'' \<mapsto> ''10'',
                                      ''address'' \<mapsto> '''', ''password'' \<mapsto> '''']\<rparr>))
              ''default/worker'' = Some sc
          \<and> listName sc = ''''
          \<and> address sc = ''redis-master.default.svc.cluster.local:6379''
          \<and> password sc = '''')"
proof -
  let ?req = "\<lparr>new_ScaledObjectRef = Some scenario_ref,
      new_Metadata = [''listName'' \<mapsto> '''', ''listLength'' \<mapsto> ''10'',
                      ''address'' \<mapsto> '''', ''password'' \<mapsto> '''']\<rparr>"
  have h1: "new_ScaledObjectRef ?req = Some scenario_ref"
    and h2: "new_Metadata ?req ''listName'' = Some ''''"
    and h3: "new_Metadata ?req ''listLength'' = None
         \<or> (\<exists>v n. new_Metadata ?req ''listLength'' = Some v \<and> Atoi v = Some n)"
    and h4: "new_Metadata ?req ''address'' = Some ''''"
    and h5: "new_Metadata ?req ''password'' = Some ''''"
    by (simp_all add: Atoi_10)
  have name: "getScalerUniqueName scenario_ref = ''default/worker''"
    by (simp add: getScalerUniqueName_def scenario_ref_def)
  show ?thesis
    using New_empty_listName [OF h1 h2 h3, of "\<lparr>scalers = None\<rparr>"] h4 h5
    by (simp only: name defaultRedisAddress_def defaultRedisPassword_def) blast
qed

text \<open>
  C10 without the condition on \<open>listLength\<close> speaks of every metadata that maps
  \<open>listName\<close> to the empty string, and fails for one whose \<open>listLength\<close> is not a
  number: the list length is parsed first, and \<open>New\<close> returns the parsing error and
  stores nothing.
\<close>

theorem New_empty_listName_counterexample:
  "new_Metadata \<lparr>new_ScaledObjectRef = Some scenario_ref,
                 new_Metadata = [''listName'' \<mapsto> '''', ''listLength'' \<mapsto> ''ten'']\<rparr>
     ''listName'' = Some ''''
   \<and> New \<lparr>scalers = None\<rparr>
        \<lparr>new_ScaledObjectRef = Some scenario_ref,
         new_Metadata = [''listName'' \<mapsto> '''', ''listLength'' \<mapsto> ''ten'']\<rparr>
     = (Inl ListLengthParsingError, \<lparr>scalers = Some Map.empty\<rparr>)"
  by (simp add: New_def parseRedisMetadata_def Atoi_ten)

end
